theory Spec2Isabelle
  imports Complex_Main "HOL-Library.AList"
begin

section \<open>Text and JSON values\<close>

text \<open>
  The program is \<^verbatim>\<open>self_verify_solver/app.py\<close>. Python text is modelled as
  \<^typ>\<open>string\<close>: a Python \<^verbatim>\<open>str\<close> is read as the list of the bytes of its UTF-8
  encoding. All characters the program inspects (braces, quotes, white space, digits,
  letters) are ASCII, one byte each.

  The values \<^verbatim>\<open>json.loads\<close> returns are \<^verbatim>\<open>None\<close>, booleans, unbounded
  integers, floats, strings, lists and dictionaries. A dictionary is an association list
  in insertion order. A float is represented by the numeral that denotes it; rounding to
  binary64 is not modelled, so two numerals of the same float are two model values and a
  float is printed as the numeral it was read from.
\<close>

datatype json =
    JNull
  | JBool bool
  | JInt int
  | JFloat string
  | JStr string
  | JArr "json list"
  | JObj "(string \<times> json) list"

datatype error =
    AssertionError
  | JSONDecodeError
  | ValueError string
  | KeyError string
  | AttributeError
  | GatewayError string

subsection \<open>Characters\<close>

definition DQ :: char where "DQ = CHR 0x22"
definition BSL :: char where "BSL = CHR 0x5C"

definition is_digit :: "char \<Rightarrow> bool" where
  "is_digit c = (c \<in> set ''0123456789'')"

definition is_ws :: "char \<Rightarrow> bool" where
  \<comment> \<open>the decoder's \<^verbatim>\<open>WHITESPACE = [ \t\n\r]*\<close>\<close>
  "is_ws c = (c = CHR '' '' \<or> c = CHR 0x09 \<or> c = CHR 0x0A \<or> c = CHR 0x0D)"

definition skip_ws :: "string \<Rightarrow> string" where
  "skip_ws s = dropWhile is_ws s"

definition digit_val :: "char \<Rightarrow> nat" where
  "digit_val c = of_char c - 48"

definition digit_char :: "nat \<Rightarrow> char" where
  "digit_char d = char_of (48 + d)"

definition nat_of_digits :: "string \<Rightarrow> nat" where
  "nat_of_digits ds = foldl (\<lambda>a c. 10 * a + digit_val c) 0 ds"

fun digits_of_nat :: "nat \<Rightarrow> string" where
  "digits_of_nat n =
     (if n < 10 then [digit_char n] else digits_of_nat (n div 10) @ [digit_char (n mod 10)])"

declare digits_of_nat.simps [simp del]

definition hex_val :: "char \<Rightarrow> nat option" where
  "hex_val c =
     (let k = (of_char c :: nat) in
      if 48 \<le> k \<and> k \<le> 57 then Some (k - 48)
      else if 97 \<le> k \<and> k \<le> 102 then Some (k - 87)
      else if 65 \<le> k \<and> k \<le> 70 then Some (k - 55)
      else None)"

definition hex_char :: "nat \<Rightarrow> char" where
  "hex_char d = (if d < 10 then char_of (48 + d) else char_of (87 + d))"

subsection \<open>Serialisation: \<^verbatim>\<open>json.dumps(v, ensure_ascii=False)\<close>\<close>

text \<open>
  The only serialiser the program calls. Strings are quoted; the quote, the backslash and
  the control characters below 0x20 are escaped, every other character is written as it
  is. Items are separated by \<^verbatim>\<open>", "\<close> and a key from its value by \<^verbatim>\<open>": "\<close>.
\<close>

definition escape_char :: "char \<Rightarrow> string" where
  "escape_char c =
     (if c = DQ then [BSL, DQ]
      else if c = BSL then [BSL, BSL]
      else if c = CHR 0x0A then [BSL, CHR ''n'']
      else if c = CHR 0x0D then [BSL, CHR ''r'']
      else if c = CHR 0x09 then [BSL, CHR ''t'']
      else if c = CHR 0x08 then [BSL, CHR ''b'']
      else if c = CHR 0x0C then [BSL, CHR ''f'']
      else if (of_char c :: nat) < 32
        then [BSL, CHR ''u'', CHR ''0'', CHR ''0'',
              hex_char (of_char c div 16), hex_char (of_char c mod 16)]
      else [c])"

definition encode_string :: "string \<Rightarrow> string" where
  "encode_string s = DQ # concat (map escape_char s) @ [DQ]"

definition int_repr :: "int \<Rightarrow> string" where
  "int_repr i = (if i < 0 then CHR ''-'' # digits_of_nat (nat (- i)) else digits_of_nat (nat i))"

fun join :: "string \<Rightarrow> string list \<Rightarrow> string" where
  "join sep [] = []"
| "join sep [x] = x"
| "join sep (x # y # xs) = x @ sep @ join sep (y # xs)"

fun dumps :: "json \<Rightarrow> string" where
  "dumps JNull = ''null''"
| "dumps (JBool b) = (if b then ''true'' else ''false'')"
| "dumps (JInt i) = int_repr i"
| "dumps (JFloat l) = l"
| "dumps (JStr s) = encode_string s"
| "dumps (JArr vs) = ''['' @ join '', '' (map dumps vs) @ '']''"
| "dumps (JObj kvs) =
     ''{'' @ join '', '' (map (\<lambda>(k, v). encode_string k @ '': '' @ dumps v) kvs) @ ''}''"

subsection \<open>Parsing: \<^verbatim>\<open>json.loads\<close>\<close>

text \<open>
  The decoder of the standard library, as a recursive-descent parser. A parser takes the
  text still to read and returns the value with the text after it, or fails (the library
  raises \<^verbatim>\<open>JSONDecodeError\<close>). The recursion is on a counter that is decremented at
  every call; \<open>OutOfFuel\<close> is the answer of a call that reaches zero, and
  \<open>json_loads\<close> starts with more than the text can use.
\<close>

datatype 'a parse = OutOfFuel | Fail | Done 'a string

text \<open>UTF-8 bytes of a code point; a lone surrogate is written like any other
  three-byte code point.\<close>

definition utf8 :: "nat \<Rightarrow> string" where
  "utf8 u =
     (if u < 0x80 then [char_of u]
      else if u < 0x800 then [char_of (0xC0 + u div 64), char_of (0x80 + u mod 64)]
      else if u < 0x10000 then
        [char_of (0xE0 + u div 4096), char_of (0x80 + (u div 64) mod 64), char_of (0x80 + u mod 64)]
      else
        [char_of (0xF0 + u div 262144), char_of (0x80 + (u div 4096) mod 64),
         char_of (0x80 + (u div 64) mod 64), char_of (0x80 + u mod 64)])"

fun hex4 :: "string \<Rightarrow> (nat \<times> string) option" where
  "hex4 (a # b # c # d # r) =
     (case (hex_val a, hex_val b, hex_val c, hex_val d) of
        (Some x, Some y, Some z, Some w) \<Rightarrow> Some (((x * 16 + y) * 16 + z) * 16 + w, r)
      | _ \<Rightarrow> None)"
| "hex4 _ = None"

definition unescape_u :: "string \<Rightarrow> (string \<times> nat) option" where
  \<comment> \<open>the text after \<^verbatim>\<open>\u\<close>: four hex digits, and a low surrogate escape after a high
    one; the result is the character's bytes and the number of characters read\<close>
  "unescape_u s =
     (case hex4 s of
        None \<Rightarrow> None
      | Some (u, r) \<Rightarrow>
          (if 0xD800 \<le> u \<and> u \<le> 0xDBFF then
             (case r of
                b # c # r2 \<Rightarrow>
                  (if b = BSL \<and> c = CHR ''u'' then
                     (case hex4 r2 of
                        Some (u2, r3) \<Rightarrow>
                          (if 0xDC00 \<le> u2 \<and> u2 \<le> 0xDFFF
                           then Some (utf8 (0x10000 + (u - 0xD800) * 1024 + (u2 - 0xDC00)), 10)
                           else Some (utf8 u, 4))
                      | None \<Rightarrow> Some (utf8 u, 4))
                   else Some (utf8 u, 4))
              | _ \<Rightarrow> Some (utf8 u, 4))
           else Some (utf8 u, 4)))"

definition unescape :: "char \<Rightarrow> char option" where
  "unescape c =
     (if c = DQ then Some DQ
      else if c = BSL then Some BSL
      else if c = CHR ''/'' then Some (CHR ''/'')
      else if c = CHR ''b'' then Some (CHR 0x08)
      else if c = CHR ''f'' then Some (CHR 0x0C)
      else if c = CHR ''n'' then Some (CHR 0x0A)
      else if c = CHR ''r'' then Some (CHR 0x0D)
      else if c = CHR ''t'' then Some (CHR 0x09)
      else None)"

text \<open>\<open>scanstring acc s\<close> reads a string body up to its closing quote (strict mode:
  a raw control character is an error).\<close>

fun scanstring :: "string \<Rightarrow> string \<Rightarrow> (string \<times> string) option" where
  "scanstring acc [] = None"
| "scanstring acc (c # s) =
     (if c = DQ then Some (acc, s)
      else if c = BSL then
        (case s of
           [] \<Rightarrow> None
         | e # r \<Rightarrow>
             (if e = CHR ''u'' then
                (case unescape_u r of
                   None \<Rightarrow> None
                 | Some (bs, k) \<Rightarrow> scanstring (acc @ bs) (drop k r))
              else
                (case unescape e of
                   None \<Rightarrow> None
                 | Some x \<Rightarrow> scanstring (acc @ [x]) r)))
      else if (of_char c :: nat) < 32 then None
      else scanstring (acc @ [c]) s)"

text \<open>The number pattern
  \<^verbatim>\<open>(-?(?:0|[1-9][0-9]*))(\.[0-9]+)?([eE][-+]?[0-9]+)?\<close>: an integer when neither
  fraction nor exponent is there, a float otherwise.\<close>

definition scan_int :: "string \<Rightarrow> (string \<times> string) option" where
  "scan_int s =
     (let (sg, r) = (case s of c # r \<Rightarrow> if c = CHR ''-'' then (''-'', r) else ('''', s) | [] \<Rightarrow> ('''', s))
      in case r of
           [] \<Rightarrow> None
         | d # r2 \<Rightarrow>
             (if d = CHR ''0'' then Some (sg @ ''0'', r2)
              else if is_digit d then Some (sg @ d # takeWhile is_digit r2, dropWhile is_digit r2)
              else None))"

definition scan_frac :: "string \<Rightarrow> string \<times> string" where
  "scan_frac s =
     (case s of
        c # d # r \<Rightarrow>
          (if c = CHR ''.'' \<and> is_digit d
           then (c # d # takeWhile is_digit r, dropWhile is_digit r) else ('''', s))
      | _ \<Rightarrow> ('''', s))"

definition scan_exp :: "string \<Rightarrow> string \<times> string" where
  "scan_exp s =
     (case s of
        e # r \<Rightarrow>
          (if e = CHR ''e'' \<or> e = CHR ''E'' then
             (case r of
                c # r2 \<Rightarrow>
                  (if c = CHR ''-'' \<or> c = CHR ''+'' then
                     (case r2 of
                        d # r3 \<Rightarrow>
                          (if is_digit d
                           then (e # c # d # takeWhile is_digit r3, dropWhile is_digit r3)
                           else ('''', s))
                      | [] \<Rightarrow> ('''', s))
                   else if is_digit c
                     then (e # c # takeWhile is_digit r2, dropWhile is_digit r2)
                   else ('''', s))
              | [] \<Rightarrow> ('''', s))
           else ('''', s))
      | [] \<Rightarrow> ('''', s))"

definition int_of_numeral :: "string \<Rightarrow> int" where
  "int_of_numeral l =
     (case l of
        c # ds \<Rightarrow> if c = CHR ''-'' then - int (nat_of_digits ds) else int (nat_of_digits l)
      | [] \<Rightarrow> 0)"

definition scan_number :: "string \<Rightarrow> (json \<times> string) option" where
  "scan_number s =
     (case scan_int s of
        None \<Rightarrow> None
      | Some (i, r) \<Rightarrow>
          (let (f, r2) = scan_frac r; (e, r3) = scan_exp r2
           in if f = [] \<and> e = [] then Some (JInt (int_of_numeral i), r3)
              else Some (JFloat (i @ f @ e), r3)))"

definition scan_atom :: "string \<Rightarrow> json parse" where
  \<comment> \<open>the cases of \<^verbatim>\<open>scan_once\<close> that are not a string, a list or a dictionary\<close>
  "scan_atom s =
     (if take 4 s = ''null'' then Done JNull (drop 4 s)
      else if take 4 s = ''true'' then Done (JBool True) (drop 4 s)
      else if take 5 s = ''false'' then Done (JBool False) (drop 5 s)
      else if take 3 s = ''NaN'' then Done (JFloat ''NaN'') (drop 3 s)
      else if take 8 s = ''Infinity'' then Done (JFloat ''Infinity'') (drop 8 s)
      else if take 9 s = ''-Infinity'' then Done (JFloat ''-Infinity'') (drop 9 s)
      else (case scan_number s of Some (v, r) \<Rightarrow> Done v r | None \<Rightarrow> Fail))"

text \<open>
  \<open>scan_once\<close> reads one value at the head of the text. \<open>parse_array\<close> and
  \<open>parse_object\<close> read the items after the opening bracket, the text standing at the
  next item. A key that comes again replaces the value of its first occurrence, as
  storing into a Python dictionary does.
\<close>

fun scan_once :: "nat \<Rightarrow> string \<Rightarrow> json parse"
  and parse_array :: "nat \<Rightarrow> json list \<Rightarrow> string \<Rightarrow> json parse"
  and parse_object :: "nat \<Rightarrow> (string \<times> json) list \<Rightarrow> string \<Rightarrow> json parse"
where
  "scan_once 0 s = OutOfFuel"
| "scan_once (Suc n) s =
     (case s of
        [] \<Rightarrow> Fail
      | c # r \<Rightarrow>
          (if c = DQ then
             (case scanstring [] r of None \<Rightarrow> Fail | Some (x, r2) \<Rightarrow> Done (JStr x) r2)
           else if c = CHR ''{'' then
             (case skip_ws r of
                [] \<Rightarrow> Fail
              | d # r2 \<Rightarrow> if d = CHR ''}'' then Done (JObj []) r2 else parse_object n [] (d # r2))
           else if c = CHR ''['' then
             (case skip_ws r of
                [] \<Rightarrow> Fail
              | d # r2 \<Rightarrow> if d = CHR '']'' then Done (JArr []) r2 else parse_array n [] (d # r2))
           else scan_atom s))"
| "parse_array 0 acc s = OutOfFuel"
| "parse_array (Suc n) acc s =
     (case scan_once n s of
        OutOfFuel \<Rightarrow> OutOfFuel
      | Fail \<Rightarrow> Fail
      | Done v r \<Rightarrow>
          (case skip_ws r of
             [] \<Rightarrow> Fail
           | d # r2 \<Rightarrow>
               (if d = CHR '']'' then Done (JArr (acc @ [v])) r2
                else if d = CHR '','' then parse_array n (acc @ [v]) (skip_ws r2)
                else Fail)))"
| "parse_object 0 acc s = OutOfFuel"
| "parse_object (Suc n) acc s =
     (case s of
        [] \<Rightarrow> Fail
      | q # r \<Rightarrow>
          (if q \<noteq> DQ then Fail
           else
             (case scanstring [] r of
                None \<Rightarrow> Fail
              | Some (k, r2) \<Rightarrow>
                  (case skip_ws r2 of
                     [] \<Rightarrow> Fail
                   | c # r3 \<Rightarrow>
                       (if c \<noteq> CHR '':'' then Fail
                        else
                          (case scan_once n (skip_ws r3) of
                             OutOfFuel \<Rightarrow> OutOfFuel
                           | Fail \<Rightarrow> Fail
                           | Done v r4 \<Rightarrow>
                               (case skip_ws r4 of
                                  [] \<Rightarrow> Fail
                                | d # r5 \<Rightarrow>
                                    (if d = CHR ''}'' then Done (JObj (AList.update k v acc)) r5
                                     else if d = CHR '','' then
                                       parse_object n (AList.update k v acc) (skip_ws r5)
                                     else Fail))))))))"

definition json_loads :: "string \<Rightarrow> json option" where
  \<comment> \<open>white space, one value, white space, end of text; \<open>None\<close> is \<^verbatim>\<open>JSONDecodeError\<close>\<close>
  "json_loads s =
     (case scan_once (2 * length s + 2) (skip_ws s) of
        Done v r \<Rightarrow> if skip_ws r = [] then Some v else None
      | _ \<Rightarrow> None)"

section \<open>The program\<close>

subsection \<open>Configuration and prompt templates\<close>

definition TEMPERATURE_SOLVER :: rat where "TEMPERATURE_SOLVER = 0"
definition TEMPERATURE_VERIFIER :: rat where "TEMPERATURE_VERIFIER = 0"
definition TEMPERATURE_FIXER :: rat where "TEMPERATURE_FIXER = 0"

definition SEED :: int where "SEED = 42"
definition MAX_ITERS :: int where "MAX_ITERS = 3"

definition TASK_TYPES :: "string set" where
  "TASK_TYPES = {''mcq'', ''numeric'', ''proof_outline'', ''short_answer''}"

text \<open>A template is a function of its fields: \<^verbatim>\<open>str.format\<close> puts each argument in
  the place of its field and copies the rest.\<close>

definition MODEL_SOLVER :: string where
  "MODEL_SOLVER = ''deepseek-r1:1.5b''"

definition MODEL_VERIFIER :: string where
  "MODEL_VERIFIER = ''deepseek-r1:1.5b''"

definition MODEL_FIXER :: string where
  "MODEL_FIXER = ''deepseek-r1:1.5b''"

definition SOLVER_SYSTEM :: string where
  \<open>SOLVER_SYSTEM =
     ''You are a problem solver. Provide ONLY a single-line JSON object as output. '' @
     ''Do not include chain-of-thought. Keep reasoning internal.''\<close>

definition VERIFIER_SYSTEM :: string where
  \<open>VERIFIER_SYSTEM =
     ''You are a strict solution verifier. Accept a problem and a candidate JSON '' @
     ''answer. Check ONLY for structure, consistency, and obvious logical issues; '' @
     ''do NOT provide chain-of-thought. Output a ONE-LINE JSON bug report: {"verdict":"pass|fail","bugs":[...],"bug_codes":[...],"advice":[...]}.''\<close>

definition FIXER_SYSTEM :: string where
  \<open>FIXER_SYSTEM =
     ''You are a fixer that revises the previous JSON answer using a bug report. '' @
     ''Return ONLY ONE-LINE JSON with the same schema as the solver'' @
     [CHR 0x27] @
     ''s type. No chain-of-thought.''\<close>

definition SOLVER_FEWSHOT :: "(string \<times> string) list" where
  \<open>SOLVER_FEWSHOT =
     [(''mcq'',
       ''{"answer_type":"mcq","final_answer_letter":"B","key_checks":["letter in '' @
       ''{A,B,C,D}"],"confidence":0.78}''),
      (''numeric'',
       ''{"answer_type":"numeric","final_answer_value":"42","key_checks":["units '' @
       ''consistent"],"confidence":0.75}''),
      (''proof_outline'',
       ''{"answer_type":"proof_outline","final_claim":"g(n) is divisible by 3","key_lemmas":["mod '' @
       ''arithmetic"],"key_checks":["no gap"],"confidence":0.70}''),
      (''short_answer'',
       ''{"answer_type":"short_answer","final_answer_text":"the graph is bipartite","key_checks":["no '' @
       ''odd cycle"],"confidence":0.72}'')]\<close>

definition SOLVER_USER_TEMPLATE :: "string \<Rightarrow> string \<Rightarrow> string \<Rightarrow> string" where
  "SOLVER_USER_TEMPLATE task_type fewshot problem =
     ''Task type: '' @
     task_type @
     ''\<newline>'' @
     ''Provide your final answer in STRICT JSON (one line).\<newline>'' @
     ''Constraints:\<newline>'' @
     ''- Do NOT include any chain-of-thought.\<newline>'' @
     ''- Keep output to ONE line JSON.\<newline>'' @
     ''Example for '' @
     task_type @
     '': '' @
     fewshot @
     ''\<newline>'' @
     ''\<newline>'' @
     ''Problem:\<newline>'' @
     problem @
     ''\<newline>''"

definition VERIFIER_USER_TEMPLATE :: "string \<Rightarrow> string \<Rightarrow> string" where
  "VERIFIER_USER_TEMPLATE problem candidate =
     ''Problem:\<newline>'' @
     problem @
     ''\<newline>'' @
     ''\<newline>'' @
     ''Candidate JSON (one line):\<newline>'' @
     candidate @
     ''\<newline>'' @
     ''\<newline>'' @
     ''Validation rules (non-exhaustive):\<newline>'' @
     ''- mcq: final_answer_letter must be one of A,B,C,D.\<newline>'' @
     ''- numeric: final_answer_value simplified (no explanatory text).\<newline>'' @
     ''- proof_outline: final_claim present; key_lemmas/key_checks concise.\<newline>'' @
     ''- short_answer: final_answer_text concise; avoid hedging.\<newline>'' @
     ''- confidence in [0,1].\<newline>'' @
     ''Return ONE-LINE JSON as specified.''"

definition FIXER_USER_TEMPLATE :: "string \<Rightarrow> string \<Rightarrow> string \<Rightarrow> string" where
  "FIXER_USER_TEMPLATE problem candidate bug_report =
     ''Problem:\<newline>'' @
     problem @
     ''\<newline>'' @
     ''\<newline>'' @
     ''Previous JSON answer:\<newline>'' @
     candidate @
     ''\<newline>'' @
     ''\<newline>'' @
     ''Bug report:\<newline>'' @
     bug_report @
     ''\<newline>'' @
     ''\<newline>'' @
     ''Revise your answer to FIX the bugs. Keep format STRICT and concise.''"

subsection \<open>\<^verbatim>\<open>extract_json\<close>\<close>

text \<open>
  \<^verbatim>\<open>JSON_OBJ_RE = re.compile(r"\{.*\}", re.DOTALL)\<close> and its \<^verbatim>\<open>search\<close>: the
  leftmost match starts at the first opening brace that has a closing brace after it,
  which is the first opening brace of the text if any is; the greedy \<^verbatim>\<open>.*\<close>, which
  also matches line breaks, runs to the last closing brace. The result is
  \<^verbatim>\<open>m.group(0)\<close>, or \<open>None\<close> when nothing matches.
\<close>

definition JSON_OBJ_RE_search :: "string \<Rightarrow> string option" where
  "JSON_OBJ_RE_search line =
     (case dropWhile (\<lambda>c. c \<noteq> CHR ''{'') line of
        [] \<Rightarrow> None
      | b # r \<Rightarrow>
          (if CHR ''}'' \<in> set r
           then Some (b # rev (dropWhile (\<lambda>c. c \<noteq> CHR ''}'') (rev r)))
           else None))"

text \<open>
  \<^verbatim>\<open>
  def extract_json(line):
      try:
          data = json.loads(line)
          if isinstance(data, dict):
              return data
      except json.JSONDecodeError:
          pass
      m = JSON_OBJ_RE.search(line)
      if m:
          return json.loads(m.group(0))
      raise ValueError("No valid JSON object found")
  \<close>
  The second \<^verbatim>\<open>json.loads\<close> is outside the \<^verbatim>\<open>try\<close>: its error leaves the function.
\<close>

definition isinstance_dict :: "json \<Rightarrow> bool" where
  "isinstance_dict v = (case v of JObj kvs \<Rightarrow> True | _ \<Rightarrow> False)"

definition extract_json :: "string \<Rightarrow> error + json" where
  "extract_json line =
     (case (case json_loads line of
              Some data \<Rightarrow> if isinstance_dict data then Some data else None
            | None \<Rightarrow> None) of
        Some data \<Rightarrow> Inr data
      | None \<Rightarrow>
          (case JSON_OBJ_RE_search line of
             Some g \<Rightarrow> (case json_loads g of Some v \<Rightarrow> Inr v | None \<Rightarrow> Inl JSONDecodeError)
           | None \<Rightarrow> Inl (ValueError ''No valid JSON object found'')))"

text \<open>\<^verbatim>\<open>JSONDecodeError\<close> is a subclass of \<^verbatim>\<open>ValueError\<close>; the two are what the
  specification calls \<open>MalformedOutput\<close>.\<close>

definition MalformedOutput :: "error \<Rightarrow> bool" where
  "MalformedOutput e = (case e of JSONDecodeError \<Rightarrow> True | ValueError m \<Rightarrow> True | _ \<Rightarrow> False)"

subsection \<open>\<^verbatim>\<open>call_llm\<close>\<close>

text \<open>
  \<^verbatim>\<open>
  async def call_llm(client, model, system, user, temperature=0.0):
      resp = await client.chat(model=model,
          messages=[{"role": "system", "content": system}, {"role": "user", "content": user}],
          options={"temperature": temperature, "seed": SEED})
      return extract_json(resp["message"]["content"])
  \<close>
  The chat service is outside the program: it is a function from the exchanges it has
  already had and the present request to the text of its answer, or to the error the
  call raises. The state of a session is the list of its exchanges so far, each a request
  with the answer it got.
\<close>

record request =
  model :: string
  messages :: "(string \<times> string) list"
  temperature :: rat
  seed :: int

type_synonym exchange = "request \<times> (error + string)"

type_synonym client = "exchange list \<Rightarrow> request \<Rightarrow> error + string"

definition parse_reply :: "error + string \<Rightarrow> error + json" where
  \<comment> \<open>what \<^verbatim>\<open>call_llm\<close> returns or raises for an answer of the service\<close>
  "parse_reply resp = (case resp of Inl e \<Rightarrow> Inl e | Inr content \<Rightarrow> extract_json content)"

definition call_llm ::
  "client \<Rightarrow> exchange list \<Rightarrow> string \<Rightarrow> string \<Rightarrow> string \<Rightarrow> rat \<Rightarrow> (error + json) \<times> exchange list" where
  "call_llm chat calls mdl sys usr temp =
     (let req = \<lparr>model = mdl, messages = [(''system'', sys), (''user'', usr)],
                 temperature = temp, seed = SEED\<rparr>;
          resp = chat calls req
      in (parse_reply resp, calls @ [(req, resp)]))"

subsection \<open>Python operations on JSON values\<close>

definition py_get :: "json \<Rightarrow> string \<Rightarrow> json \<Rightarrow> error + json" where
  \<comment> \<open>\<^verbatim>\<open>d.get(key, default)\<close>; only a dictionary has the method\<close>
  "py_get d k dflt =
     (case d of
        JObj kvs \<Rightarrow> (case map_of kvs k of Some v \<Rightarrow> Inr v | None \<Rightarrow> Inr dflt)
      | _ \<Rightarrow> Inl AttributeError)"

definition float_repr :: "string \<Rightarrow> string" where
  "float_repr l =
     (if l = ''NaN'' then ''nan'' else if l = ''Infinity'' then ''inf''
      else if l = ''-Infinity'' then ''-inf'' else l)"

text \<open>\<^verbatim>\<open>repr\<close> of a value. A string inside a list or a dictionary is put between single
  quotes as it is; Python also escapes some of its characters.\<close>

fun py_repr :: "json \<Rightarrow> string" where
  "py_repr JNull = ''None''"
| "py_repr (JBool b) = (if b then ''True'' else ''False'')"
| "py_repr (JInt i) = int_repr i"
| "py_repr (JFloat l) = float_repr l"
| "py_repr (JStr s) = [CHR 0x27] @ s @ [CHR 0x27]"
| "py_repr (JArr vs) = ''['' @ join '', '' (map py_repr vs) @ '']''"
| "py_repr (JObj kvs) =
     ''{'' @ join '', '' (map (\<lambda>(k, v). [CHR 0x27] @ k @ [CHR 0x27] @ '': '' @ py_repr v) kvs) @ ''}''"

definition py_str :: "json \<Rightarrow> string" where
  "py_str v = (case v of JStr s \<Rightarrow> s | _ \<Rightarrow> py_repr v)"

definition lower_char :: "char \<Rightarrow> char" where
  "lower_char c =
     (if 65 \<le> (of_char c :: nat) \<and> (of_char c :: nat) \<le> 90 then char_of (of_char c + 32 :: nat) else c)"

definition py_lower :: "string \<Rightarrow> string" where
  \<comment> \<open>\<^verbatim>\<open>str.lower\<close> on the ASCII letters; no other character becomes an ASCII letter\<close>
  "py_lower s = map lower_char s"

definition float_nonzero :: "string \<Rightarrow> bool" where
  "float_nonzero l =
     (l = ''NaN'' \<or> l = ''Infinity'' \<or> l = ''-Infinity'' \<or>
      (\<exists>c \<in> set (takeWhile (\<lambda>c. c \<noteq> CHR ''e'' \<and> c \<noteq> CHR ''E'') l). c \<in> set ''123456789''))"

definition py_bool :: "json \<Rightarrow> bool" where
  \<comment> \<open>the truth value of an object\<close>
  "py_bool v =
     (case v of
        JNull \<Rightarrow> False
      | JBool b \<Rightarrow> b
      | JInt i \<Rightarrow> i \<noteq> 0
      | JFloat l \<Rightarrow> float_nonzero l
      | JStr s \<Rightarrow> s \<noteq> []
      | JArr vs \<Rightarrow> vs \<noteq> []
      | JObj kvs \<Rightarrow> kvs \<noteq> [])"

subsection \<open>\<^verbatim>\<open>solve_one\<close>\<close>

record SolveResult =
  ok :: bool
  final_answer :: json
  iters :: int

text \<open>
  \<^verbatim>\<open>
  async def solve_one(problem, task_type="mcq", max_iters=MAX_ITERS):
      assert task_type in TASK_TYPES
      client = AsyncClient()
      candidate = None
      verifier_out = {}
      for it in range(1, max_iters + 1):
          if candidate is None:
              user = SOLVER_USER_TEMPLATE.format(task_type=task_type,
                         fewshot=SOLVER_FEWSHOT[task_type], problem=problem)
              cand = await call_llm(client, MODEL_SOLVER, SOLVER_SYSTEM, user, TEMPERATURE_SOLVER)
          else:
              bug_report_json = json.dumps(verifier_out, ensure_ascii=False)
              user = FIXER_USER_TEMPLATE.format(problem=problem,
                         candidate=json.dumps(candidate, ensure_ascii=False),
                         bug_report=bug_report_json)
              cand = await call_llm(client, MODEL_FIXER, FIXER_SYSTEM, user, TEMPERATURE_FIXER)
          verifier_user = VERIFIER_USER_TEMPLATE.format(problem=problem,
                              candidate=json.dumps(cand, ensure_ascii=False))
          verifier_out = await call_llm(client, MODEL_VERIFIER, VERIFIER_SYSTEM,
                                        verifier_user, TEMPERATURE_VERIFIER)
          verdict = str(verifier_out.get("verdict", "fail")).lower()
          if verdict == "pass":
              return SolveResult(ok=True, final_answer=cand, iters=it)
          candidate = cand
      return SolveResult(ok=False, final_answer=candidate or {}, iters=max_iters)
  \<close>
  The loop is a recursion on the values \<^verbatim>\<open>range(1, max_iters + 1)\<close> still to come,
  with the variables \<^verbatim>\<open>candidate\<close> and \<^verbatim>\<open>verifier_out\<close> and the exchanges so far.
  The result is what the function returns or raises, and all the exchanges of the session.
\<close>

definition produce ::
  "client \<Rightarrow> string \<Rightarrow> string \<Rightarrow> json option \<Rightarrow> json \<Rightarrow> exchange list \<Rightarrow> (error + json) \<times> exchange list" where
  \<comment> \<open>the first statement of the loop body: the solver, or the fixer once there is a candidate\<close>
  "produce chat problem task_type candidate verifier_out calls =
     (case candidate of
        None \<Rightarrow>
          (case map_of SOLVER_FEWSHOT task_type of
             None \<Rightarrow> (Inl (KeyError task_type), calls)
           | Some fewshot \<Rightarrow>
               call_llm chat calls MODEL_SOLVER SOLVER_SYSTEM
                 (SOLVER_USER_TEMPLATE task_type fewshot problem) TEMPERATURE_SOLVER)
      | Some c \<Rightarrow>
          (let bug_report_json = dumps verifier_out
           in call_llm chat calls MODEL_FIXER FIXER_SYSTEM
                (FIXER_USER_TEMPLATE problem (dumps c) bug_report_json) TEMPERATURE_FIXER))"

definition verify :: "client \<Rightarrow> string \<Rightarrow> json \<Rightarrow> exchange list \<Rightarrow> (error + json) \<times> exchange list" where
  "verify chat problem cand calls =
     call_llm chat calls MODEL_VERIFIER VERIFIER_SYSTEM
       (VERIFIER_USER_TEMPLATE problem (dumps cand)) TEMPERATURE_VERIFIER"

definition verdict_of :: "json \<Rightarrow> error + string" where
  \<comment> \<open>\<^verbatim>\<open>str(verifier_out.get("verdict", "fail")).lower()\<close>\<close>
  "verdict_of verifier_out =
     (case py_get verifier_out ''verdict'' (JStr ''fail'') of
        Inl e \<Rightarrow> Inl e
      | Inr v \<Rightarrow> Inr (py_lower (py_str v)))"

fun solve_loop ::
  "client \<Rightarrow> string \<Rightarrow> string \<Rightarrow> int \<Rightarrow> int list \<Rightarrow> json option \<Rightarrow> json \<Rightarrow> exchange list
     \<Rightarrow> (error + SolveResult) \<times> exchange list" where
  "solve_loop chat problem task_type max_iters [] candidate verifier_out calls =
     (Inr \<lparr>ok = False,
           final_answer = (case candidate of
                             None \<Rightarrow> JObj []
                           | Some c \<Rightarrow> if py_bool c then c else JObj []),
           iters = max_iters\<rparr>, calls)"
| "solve_loop chat problem task_type max_iters (it # its) candidate verifier_out calls =
     (case produce chat problem task_type candidate verifier_out calls of
        (Inl e, calls1) \<Rightarrow> (Inl e, calls1)
      | (Inr cand, calls1) \<Rightarrow>
          (case verify chat problem cand calls1 of
             (Inl e, calls2) \<Rightarrow> (Inl e, calls2)
           | (Inr verifier_out2, calls2) \<Rightarrow>
               (case verdict_of verifier_out2 of
                  Inl e \<Rightarrow> (Inl e, calls2)
                | Inr verdict \<Rightarrow>
                    (if verdict = ''pass''
                     then (Inr \<lparr>ok = True, final_answer = cand, iters = it\<rparr>, calls2)
                     else solve_loop chat problem task_type max_iters its
                            (Some cand) verifier_out2 calls2))))"

definition solve_one :: "client \<Rightarrow> string \<Rightarrow> string \<Rightarrow> int \<Rightarrow> (error + SolveResult) \<times> exchange list" where
  "solve_one chat problem task_type max_iters =
     (if task_type \<notin> TASK_TYPES then (Inl AssertionError, [])
      else solve_loop chat problem task_type max_iters [1..max_iters] None (JObj []) [])"

subsection \<open>Reading a session\<close>

datatype stage = Solver | Verifier | Fixer

definition stage_of :: "request \<Rightarrow> stage option" where
  \<comment> \<open>the three kinds of call differ in their system message\<close>
  "stage_of req =
     (case map_of (messages req) ''system'' of
        None \<Rightarrow> None
      | Some sys \<Rightarrow>
          (if sys = SOLVER_SYSTEM then Some Solver
           else if sys = VERIFIER_SYSTEM then Some Verifier
           else if sys = FIXER_SYSTEM then Some Fixer
           else None))"

definition verifier_request :: "string \<Rightarrow> json \<Rightarrow> request" where
  \<comment> \<open>the request that asks for a verification of \<open>cand\<close>\<close>
  "verifier_request problem cand =
     \<lparr>model = MODEL_VERIFIER,
      messages = [(''system'', VERIFIER_SYSTEM),
                  (''user'', VERIFIER_USER_TEMPLATE problem (dumps cand))],
      temperature = TEMPERATURE_VERIFIER, seed = SEED\<rparr>"

definition returned :: "exchange \<Rightarrow> bool" where
  \<comment> \<open>the call of this exchange returned a value\<close>
  "returned x = (case parse_reply (snd x) of Inr v \<Rightarrow> True | Inl e \<Rightarrow> False)"

definition passed :: "exchange \<Rightarrow> bool" where
  \<comment> \<open>the call returned a report that the loop takes as a pass\<close>
  "passed x = (case parse_reply (snd x) of Inr v \<Rightarrow> verdict_of v = Inr ''pass'' | Inl e \<Rightarrow> False)"

definition is_verifier :: "exchange \<Rightarrow> bool" where
  "is_verifier x = (stage_of (fst x) = Some Verifier)"

text \<open>
  The shape of a session: each iteration is one call that produces a candidate (the solver
  in the first iteration, the fixer in the later ones) and then one call of the verifier
  on the candidate that call returned. A last iteration may stop after its first call, when
  that call raised.
\<close>

fun iterations :: "string \<Rightarrow> bool \<Rightarrow> exchange list \<Rightarrow> bool" where
  "iterations problem first [] = True"
| "iterations problem first [x] = (stage_of (fst x) = Some (if first then Solver else Fixer))"
| "iterations problem first (x # y # xs) =
     (stage_of (fst x) = Some (if first then Solver else Fixer) \<and>
      (case parse_reply (snd x) of
         Inr cand \<Rightarrow> fst y = verifier_request problem cand
       | Inl e \<Rightarrow> False) \<and>
      iterations problem False xs)"

text \<open>Every float in a value starts as a numeral does, or is one of the two names the
  decoder accepts.\<close>

definition float_head :: "string \<Rightarrow> bool" where
  "float_head l =
     (case l of
        [] \<Rightarrow> False
      | c # r \<Rightarrow> c = CHR ''-'' \<or> is_digit c \<or> l = ''NaN'' \<or> l = ''Infinity'')"

fun floats_ok :: "json \<Rightarrow> bool" where
  "floats_ok (JFloat l) = float_head l"
| "floats_ok (JArr vs) = list_all floats_ok vs"
| "floats_ok (JObj kvs) = list_all (\<lambda>kv. floats_ok (snd kv)) kvs"
| "floats_ok v = True"

subsection \<open>A scripted chat service\<close>

text \<open>
  The service of the scenario in the specification: the problem \<^verbatim>\<open>What is 2+2?\<close>, a
  solver and a fixer that answer \<^verbatim>\<open>4\<close>, and a verifier whose answer is given.
  \<open>scripted vs\<close> answers the \<open>i\<close>-th verification of the session with \<open>vs ! i\<close>
  and any later one with the last text of \<open>vs\<close>.
\<close>

definition answer_4 :: string where
  \<open>answer_4 = ''{"answer_type":"numeric","final_answer_value":"4","key_checks":[],"confidence":0.9}''\<close>

definition report_pass :: string where
  \<open>report_pass = ''{"verdict":"pass","bugs":[],"bug_codes":[],"advice":[]}''\<close>

definition report_fail :: string where
  \<open>report_fail = ''{"verdict":"fail","bugs":["no units"],"bug_codes":["E1"],"advice":[]}''\<close>

definition scripted :: "string list \<Rightarrow> client" where
  "scripted vs calls req =
     (if stage_of req = Some Verifier
      then Inr (if length calls div 2 < length vs then vs ! (length calls div 2) else last vs)
      else Inr answer_4)"

lemma parse_object_JObj: "parse_object n acc s = Done v r \<Longrightarrow> \<exists>m. v = JObj m"
proof (induction n arbitrary: acc s)
  case 0
  then show ?case by simp
next
  case (Suc n)
  from Suc.prems show ?case
    by (simp split: list.splits if_splits option.splits parse.splits prod.splits) (auto dest: Suc.IH)
qed

lemma scan_once_brace_JObj:
  assumes "scan_once n (CHR ''{'' # s) = Done v r"
  shows "\<exists>m. v = JObj m"
proof (cases n)
  case 0
  with assms show ?thesis by simp
next
  case (Suc k)
  with assms show ?thesis
    by (simp add: DQ_def split: list.splits if_splits) (auto dest: parse_object_JObj)
qed

lemma search_brace: "JSON_OBJ_RE_search line = Some g \<Longrightarrow> \<exists>r. g = CHR ''{'' # r"
proof -
  assume a: "JSON_OBJ_RE_search line = Some g"
  obtain b r where br: "dropWhile (\<lambda>c. c \<noteq> CHR ''{'') line = b # r"
    using a by (auto simp: JSON_OBJ_RE_search_def split: list.splits)
  then have "b = CHR ''{''"
    using hd_dropWhile[of "\<lambda>c. c \<noteq> CHR ''{''" line] by auto
  with a br show ?thesis
    by (auto simp: JSON_OBJ_RE_search_def split: if_splits)
qed

lemma skip_ws_brace: "skip_ws (CHR ''{'' # s) = CHR ''{'' # s"
  by (simp add: skip_ws_def is_ws_def)

lemma json_loads_brace_JObj:
  assumes "json_loads (CHR ''{'' # s) = Some v"
  shows "\<exists>m. v = JObj m"
proof -
  from assms obtain r where "scan_once (2 * length (CHR ''{'' # s) + 2) (CHR ''{'' # s) = Done v r"
    unfolding json_loads_def skip_ws_brace by (auto split: parse.splits if_splits)
  then show ?thesis by (rule scan_once_brace_JObj)
qed

lemma extract_json_dict: "extract_json line = Inr v \<Longrightarrow> \<exists>m. v = JObj m"
  unfolding extract_json_def
  by (auto simp: isinstance_dict_def split: option.splits if_splits json.splits
      dest!: search_brace dest: json_loads_brace_JObj)

lemma fewshot_defined: "task_type \<in> TASK_TYPES \<Longrightarrow> \<exists>f. map_of SOLVER_FEWSHOT task_type = Some f"
  by (auto simp: TASK_TYPES_def SOLVER_FEWSHOT_def)


lemma stage_of_verifier_request [simp]: "stage_of (verifier_request problem cand) = Some Verifier"
  by (simp add: stage_of_def verifier_request_def VERIFIER_SYSTEM_def SOLVER_SYSTEM_def)

lemma verdict_of_dict: "\<exists>d. verdict_of (JObj m) = Inr d"
  by (simp add: verdict_of_def py_get_def split: option.splits)

lemma solve_loop_step:
  assumes "task_type \<in> TASK_TYPES"
  shows "\<exists>x1. stage_of (fst x1) = Some (case candidate of None \<Rightarrow> Solver | Some c \<Rightarrow> Fixer) \<and>
     snd x1 = chat calls (fst x1) \<and>
     (case parse_reply (snd x1) of
        Inl e \<Rightarrow> solve_loop chat problem task_type N (it # its) candidate vout calls = (Inl e, calls @ [x1])
      | Inr cand \<Rightarrow>
         (let x2 = (verifier_request problem cand, chat (calls @ [x1]) (verifier_request problem cand)) in
          case parse_reply (snd x2) of
            Inl e \<Rightarrow> solve_loop chat problem task_type N (it # its) candidate vout calls = (Inl e, calls @ [x1, x2])
          | Inr v \<Rightarrow>
              if verdict_of v = Inr ''pass''
              then solve_loop chat problem task_type N (it # its) candidate vout calls
                     = (Inr \<lparr>ok = True, final_answer = cand, iters = it\<rparr>, calls @ [x1, x2])
              else solve_loop chat problem task_type N (it # its) candidate vout calls
                     = solve_loop chat problem task_type N its (Some cand) v (calls @ [x1, x2])))"
proof -
  obtain f where f: "map_of SOLVER_FEWSHOT task_type = Some f"
    using fewshot_defined[OF assms] by blast
  define req where "req = (case candidate of
      None \<Rightarrow> \<lparr>model = MODEL_SOLVER, messages = [(''system'', SOLVER_SYSTEM),
                 (''user'', SOLVER_USER_TEMPLATE task_type f problem)],
               temperature = TEMPERATURE_SOLVER, seed = SEED\<rparr>
    | Some c \<Rightarrow> \<lparr>model = MODEL_FIXER, messages = [(''system'', FIXER_SYSTEM),
                 (''user'', FIXER_USER_TEMPLATE problem (dumps c) (dumps vout))],
               temperature = TEMPERATURE_FIXER, seed = SEED\<rparr>)"
  have st: "stage_of req = Some (case candidate of None \<Rightarrow> Solver | Some c \<Rightarrow> Fixer)"
    by (simp add: req_def stage_of_def SOLVER_SYSTEM_def FIXER_SYSTEM_def VERIFIER_SYSTEM_def
        split: option.splits)
  have pr: "produce chat problem task_type candidate vout calls
      = (parse_reply (chat calls req), calls @ [(req, chat calls req)])"
    by (simp add: produce_def call_llm_def req_def f Let_def split: option.splits)
  have vr: "verify chat problem cand cs
      = (parse_reply (chat cs (verifier_request problem cand)),
         cs @ [(verifier_request problem cand, chat cs (verifier_request problem cand))])" for cand cs
    by (simp add: verify_def call_llm_def verifier_request_def Let_def)
  show ?thesis
  proof (intro exI[of _ "(req, chat calls req)"] conjI)
    show "stage_of (fst (req, chat calls req)) = Some (case candidate of None \<Rightarrow> Solver | Some c \<Rightarrow> Fixer)"
      using st by simp
    show "snd (req, chat calls req) = chat calls (fst (req, chat calls req))" by simp
    show "case parse_reply (snd (req, chat calls req)) of
        Inl e \<Rightarrow> solve_loop chat problem task_type N (it # its) candidate vout calls = (Inl e, calls @ [(req, chat calls req)])
      | Inr cand \<Rightarrow>
         (let x2 = (verifier_request problem cand, chat (calls @ [(req, chat calls req)]) (verifier_request problem cand)) in
          case parse_reply (snd x2) of
            Inl e \<Rightarrow> solve_loop chat problem task_type N (it # its) candidate vout calls = (Inl e, calls @ [(req, chat calls req), x2])
          | Inr v \<Rightarrow>
              if verdict_of v = Inr ''pass''
              then solve_loop chat problem task_type N (it # its) candidate vout calls
                     = (Inr \<lparr>ok = True, final_answer = cand, iters = it\<rparr>, calls @ [(req, chat calls req), x2])
              else solve_loop chat problem task_type N (it # its) candidate vout calls
                     = solve_loop chat problem task_type N its (Some cand) v (calls @ [(req, chat calls req), x2]))"
    proof (cases "parse_reply (chat calls req)")
      case (Inl e)
      then show ?thesis by (simp add: pr)
    next
      case (Inr cand)
      show ?thesis
      proof (cases "parse_reply (chat (calls @ [(req, chat calls req)]) (verifier_request problem cand))")
        case (Inl e)
        with Inr show ?thesis by (simp add: pr vr)
      next
        case v: (Inr v)
        then obtain m where m: "v = JObj m"
          by (auto simp: parse_reply_def split: sum.splits dest: extract_json_dict)
        obtain d where d: "verdict_of v = Inr d" using verdict_of_dict m by blast
        from Inr v d show ?thesis by (simp add: pr vr)
      qed
    qed
  qed
qed

section \<open>Rejected and degenerate calls\<close>

text \<open>
  Claim C4. For a task type outside \<open>TASK_TYPES\<close>, \<open>solve_one\<close> fails at its first
  statement, the \<^verbatim>\<open>assert\<close>, for every problem text and every bound: the result is the
  assertion's error (the specification's \<open>InvalidTaskType\<close>) and the session has no
  exchange with the service.
\<close>

theorem solve_one_invalid_task_type:
  assumes "task_type \<notin> TASK_TYPES"
  shows "solve_one chat problem task_type max_iters = (Inl AssertionError, [])"
  using assms by (simp add: solve_one_def)

theorem solve_one_invalid_task_type_witness:
  "''essay'' \<notin> TASK_TYPES \<and>
   solve_one (scripted [report_pass]) ''What is 2+2?'' ''essay'' 3 = (Inl AssertionError, [])"
proof -
  have h: "''essay'' \<notin> TASK_TYPES" by (simp add: TASK_TYPES_def)
  from solve_one_invalid_task_type[OF h] h show ?thesis by simp
qed

text \<open>
  Claim C10. For a valid task type and a bound \<open>max_iters \<le> 0\<close> the loop body never
  runs: \<open>solve_one\<close> returns \<open>ok = False\<close>, the empty dictionary as answer and
  \<open>iters = max_iters\<close>, without any exchange with the service. The bound is not rejected.
\<close>

theorem solve_one_nonpositive_bound:
  assumes "task_type \<in> TASK_TYPES" and "max_iters \<le> 0"
  shows "solve_one chat problem task_type max_iters
           = (Inr \<lparr>ok = False, final_answer = JObj [], iters = max_iters\<rparr>, [])"
  using assms by (simp add: solve_one_def)

theorem solve_one_nonpositive_bound_witness:
  "''mcq'' \<in> TASK_TYPES \<and> (- 2 :: int) \<le> 0 \<and>
   solve_one (scripted [report_pass]) ''Which one?'' ''mcq'' (- 2)
     = (Inr \<lparr>ok = False, final_answer = JObj [], iters = - 2\<rparr>, [])"
proof -
  have h1: "''mcq'' \<in> TASK_TYPES" by (simp add: TASK_TYPES_def)
  have h2: "(- 2 :: int) \<le> 0" by simp
  from solve_one_nonpositive_bound[OF h1 h2] h1 show ?thesis by simp
qed

section \<open>The extractor: failure\<close>

text \<open>
  Claim C9. When the parse of the whole text does not give a dictionary and the span from
  the first opening brace to the last closing brace is there but does not parse,
  \<open>extract_json\<close> returns no value: the error of the second \<^verbatim>\<open>json.loads\<close> leaves the
  function, and it is a \<open>MalformedOutput\<close>.
\<close>

theorem extract_json_both_fail:
  assumes "\<forall>m. json_loads line \<noteq> Some (JObj m)"
    and "JSON_OBJ_RE_search line = Some g"
    and "json_loads g = None"
  shows "extract_json line = Inl JSONDecodeError \<and> MalformedOutput JSONDecodeError"
  using assms
  by (auto simp: extract_json_def isinstance_dict_def MalformedOutput_def
      split: option.splits json.splits)

theorem extract_json_both_fail_witness:
  "(\<forall>m. json_loads ''Answer: {not json} done'' \<noteq> Some (JObj m)) \<and>
   JSON_OBJ_RE_search ''Answer: {not json} done'' = Some ''{not json}'' \<and>
   json_loads ''{not json}'' = None \<and>
   extract_json ''Answer: {not json} done'' = Inl JSONDecodeError"
proof -
  have h0: "json_loads ''Answer: {not json} done'' = None" by code_simp
  have h1: "\<forall>m. json_loads ''Answer: {not json} done'' \<noteq> Some (JObj m)" using h0 by simp
  have h2: "JSON_OBJ_RE_search ''Answer: {not json} done'' = Some ''{not json}''" by code_simp
  have h3: "json_loads ''{not json}'' = None" by code_simp
  from extract_json_both_fail[OF h1 h2 h3] h1 h2 h3 show ?thesis by simp
qed

section \<open>The loop\<close>

lemma is_verifier_simps [simp]: "is_verifier (verifier_request problem cand, resp)"
  by (simp add: is_verifier_def)

lemma all_fail:
  assumes t: "task_type \<in> TASK_TYPES"
    and run: "solve_loop chat problem task_type N its candidate vout calls = (res, cs)"
  shows "\<exists>new. cs = calls @ new \<and>
     (list_all returned new \<longrightarrow> \<not> list_ex (\<lambda>x. is_verifier x \<and> passed x) new \<longrightarrow>
       (\<exists>fa. res = Inr \<lparr>ok = False, final_answer = fa, iters = N\<rparr> \<and>
          map (stage_of \<circ> fst) new =
            (if its = [] then []
             else [Some (case candidate of None \<Rightarrow> Solver | Some c \<Rightarrow> Fixer), Some Verifier]
                  @ concat (replicate (length its - 1) [Some Fixer, Some Verifier])) \<and>
          (its \<noteq> [] \<longrightarrow> parse_reply (snd (new ! (length new - 2))) = Inr fa)))"
  using run
proof (induction its arbitrary: candidate vout calls res cs)
  case Nil
  then show ?case by auto
next
  case (Cons it its)
  obtain x1 where st: "stage_of (fst x1) = Some (case candidate of None \<Rightarrow> Solver | Some c \<Rightarrow> Fixer)"
    and step: "(case parse_reply (snd x1) of
        Inl e \<Rightarrow> solve_loop chat problem task_type N (it # its) candidate vout calls = (Inl e, calls @ [x1])
      | Inr cand \<Rightarrow>
         (let x2 = (verifier_request problem cand, chat (calls @ [x1]) (verifier_request problem cand)) in
          case parse_reply (snd x2) of
            Inl e \<Rightarrow> solve_loop chat problem task_type N (it # its) candidate vout calls = (Inl e, calls @ [x1, x2])
          | Inr v \<Rightarrow>
              if verdict_of v = Inr ''pass''
              then solve_loop chat problem task_type N (it # its) candidate vout calls
                     = (Inr \<lparr>ok = True, final_answer = cand, iters = it\<rparr>, calls @ [x1, x2])
              else solve_loop chat problem task_type N (it # its) candidate vout calls
                     = solve_loop chat problem task_type N its (Some cand) v (calls @ [x1, x2])))"
    using solve_loop_step[OF t, of candidate chat calls problem N it its vout] by blast
  show ?case
  proof (cases "parse_reply (snd x1)")
    case (Inl e)
    with step Cons.prems have "cs = calls @ [x1]" by simp
    moreover have "\<not> list_all returned [x1]" using Inl by (simp add: returned_def)
    ultimately show ?thesis by blast
  next
    case c: (Inr cand)
    define x2 where "x2 = (verifier_request problem cand, chat (calls @ [x1]) (verifier_request problem cand))"
    show ?thesis
    proof (cases "parse_reply (snd x2)")
      case (Inl e)
      with step c Cons.prems have "cs = calls @ [x1, x2]" by (simp add: x2_def Let_def)
      moreover have "\<not> list_all returned [x1, x2]" using Inl by (simp add: returned_def)
      ultimately show ?thesis by blast
    next
      case v: (Inr v)
      show ?thesis
      proof (cases "verdict_of v = Inr ''pass''")
        case True
        with step c v Cons.prems have "cs = calls @ [x1, x2]" by (simp add: x2_def Let_def)
        moreover have "list_ex (\<lambda>x. is_verifier x \<and> passed x) [x1, x2]"
          using True v by (simp add: passed_def x2_def)
        ultimately show ?thesis by blast
      next
        case False
        with step c v Cons.prems
        have rec: "solve_loop chat problem task_type N its (Some cand) v (calls @ [x1, x2]) = (res, cs)"
          by (simp add: x2_def Let_def)
        from Cons.IH[OF rec] obtain new where new: "cs = (calls @ [x1, x2]) @ new"
          and ih: "list_all returned new \<longrightarrow> \<not> list_ex (\<lambda>x. is_verifier x \<and> passed x) new \<longrightarrow>
            (\<exists>fa. res = Inr \<lparr>ok = False, final_answer = fa, iters = N\<rparr> \<and>
              map (stage_of \<circ> fst) new =
                (if its = [] then []
                 else [Some (case Some cand of None \<Rightarrow> Solver | Some c \<Rightarrow> Fixer), Some Verifier]
                      @ concat (replicate (length its - 1) [Some Fixer, Some Verifier])) \<and>
              (its \<noteq> [] \<longrightarrow> parse_reply (snd (new ! (length new - 2))) = Inr fa))"
          by blast
        show ?thesis
        proof (intro exI[of _ "x1 # x2 # new"] conjI impI)
          show "cs = calls @ x1 # x2 # new" using new by simp
        next
          assume a1: "list_all returned (x1 # x2 # new)"
            and a2: "\<not> list_ex (\<lambda>x. is_verifier x \<and> passed x) (x1 # x2 # new)"
          then obtain fa where fa: "res = Inr \<lparr>ok = False, final_answer = fa, iters = N\<rparr>"
            and stg: "map (stage_of \<circ> fst) new =
                (if its = [] then []
                 else [Some Fixer, Some Verifier]
                      @ concat (replicate (length its - 1) [Some Fixer, Some Verifier]))"
            and last: "its \<noteq> [] \<longrightarrow> parse_reply (snd (new ! (length new - 2))) = Inr fa"
            using ih by auto
          have len: "length new = 2 * length its"
            using arg_cong[OF stg, of length]
            by (cases its) (auto simp: length_concat sum_list_replicate)
          have s2: "stage_of (fst x2) = Some Verifier" by (simp add: x2_def)
          have stages: "map (stage_of \<circ> fst) (x1 # x2 # new) =
              [Some (case candidate of None \<Rightarrow> Solver | Some c \<Rightarrow> Fixer), Some Verifier]
              @ concat (replicate (length (it # its) - 1) [Some Fixer, Some Verifier])"
            using st s2 stg by (cases its) auto
          have final: "parse_reply (snd ((x1 # x2 # new) ! (length (x1 # x2 # new) - 2))) = Inr fa"
          proof (cases its)
            case Nil
            with rec fa have "fa = (if py_bool cand then cand else JObj [])" by simp
            moreover obtain m where "cand = JObj m"
              using c by (auto simp: parse_reply_def split: sum.splits dest: extract_json_dict)
            ultimately have "fa = cand" by (auto simp: py_bool_def)
            with Nil len c show ?thesis by simp
          next
            case (Cons a list)
            with len last show ?thesis by (simp add: nth_Cons')
          qed
          show "\<exists>fa. res = Inr \<lparr>ok = False, final_answer = fa, iters = N\<rparr> \<and>
            map (stage_of \<circ> fst) (x1 # x2 # new) =
              (if it # its = [] then []
               else [Some (case candidate of None \<Rightarrow> Solver | Some c \<Rightarrow> Fixer), Some Verifier]
                    @ concat (replicate (length (it # its) - 1) [Some Fixer, Some Verifier])) \<and>
            (it # its \<noteq> [] \<longrightarrow> parse_reply (snd ((x1 # x2 # new) ! (length (x1 # x2 # new) - 2))) = Inr fa)"
            using fa stages final by simp
        qed
      qed
    qed
  qed
qed

lemma count_stages:
  "length (filter (\<lambda>s. s = Some Verifier) (concat (replicate n [Some Fixer, Some Verifier]))) = n"
  "length (filter (\<lambda>s. s = Some Fixer) (concat (replicate n [Some Fixer, Some Verifier]))) = n"
  "length (filter (\<lambda>s. s = Some Solver) (concat (replicate n [Some Fixer, Some Verifier]))) = 0"
  by (induction n) auto

text \<open>
  Claim C1. Take a valid task type, a bound \<open>N > 0\<close> and a session of \<open>solve_one\<close> in
  which every call returned a value and no verifier call returned a report whose verdict
  is \<^verbatim>\<open>pass\<close>. Then the session has one solver call, \<open>N - 1\<close> fixer calls and \<open>N\<close>
  verifier calls, in the order solver, verifier, fixer, verifier, ..., and \<open>solve_one\<close>
  returns \<open>ok = False\<close>, \<open>iters = N\<close> and the candidate that the last candidate-producing
  call returned.
\<close>

theorem solve_one_never_pass:
  assumes "task_type \<in> TASK_TYPES" and "0 < N"
    and "solve_one chat problem task_type N = (res, cs)"
    and "list_all returned cs"
    and "\<not> list_ex (\<lambda>x. is_verifier x \<and> passed x) cs"
  shows "\<exists>cand. res = Inr \<lparr>ok = False, final_answer = cand, iters = N\<rparr> \<and>
           parse_reply (snd (cs ! (length cs - 2))) = Inr cand \<and>
           map (stage_of \<circ> fst) cs =
             [Some Solver, Some Verifier] @ concat (replicate (nat N - 1) [Some Fixer, Some Verifier]) \<and>
           length (filter (\<lambda>x. stage_of (fst x) = Some Solver) cs) = 1 \<and>
           length (filter (\<lambda>x. stage_of (fst x) = Some Fixer) cs) = nat N - 1 \<and>
           length (filter (\<lambda>x. stage_of (fst x) = Some Verifier) cs) = nat N"
proof -
  have run: "solve_loop chat problem task_type N [1..N] None (JObj []) [] = (res, cs)"
    using assms(1,3) by (simp add: solve_one_def)
  have ne: "[1..N] \<noteq> []" using assms(2) by simp
  from all_fail[OF assms(1) run] assms(4,5) ne
  obtain fa where fa: "res = Inr \<lparr>ok = False, final_answer = fa, iters = N\<rparr>"
    and stg: "map (stage_of \<circ> fst) cs =
        [Some Solver, Some Verifier] @ concat (replicate (length [1..N] - 1) [Some Fixer, Some Verifier])"
    and last: "parse_reply (snd (cs ! (length cs - 2))) = Inr fa"
    by auto
  have stg': "map (stage_of \<circ> fst) cs =
        [Some Solver, Some Verifier] @ concat (replicate (nat N - 1) [Some Fixer, Some Verifier])"
    using stg by simp
  have cnt: "length (filter (\<lambda>x. stage_of (fst x) = s) cs)
      = length (filter (\<lambda>y. y = s) (map (stage_of \<circ> fst) cs))" for s
    by (simp add: filter_map comp_def)
  have "length (filter (\<lambda>x. stage_of (fst x) = Some Solver) cs) = 1"
    unfolding cnt stg' by (simp add: count_stages)
  moreover have "length (filter (\<lambda>x. stage_of (fst x) = Some Fixer) cs) = nat N - 1"
    unfolding cnt stg' by (simp add: count_stages)
  moreover have "length (filter (\<lambda>x. stage_of (fst x) = Some Verifier) cs) = nat N"
    unfolding cnt stg' using assms(2) by (simp add: count_stages)
  ultimately show ?thesis using fa last stg' by blast
qed

theorem solve_one_never_pass_witness:
  "''numeric'' \<in> TASK_TYPES \<and> (0::int) < 2 \<and>
   list_all returned (snd (solve_one (scripted [report_fail]) ''What is 2+2?'' ''numeric'' 2)) \<and>
   \<not> list_ex (\<lambda>x. is_verifier x \<and> passed x)
       (snd (solve_one (scripted [report_fail]) ''What is 2+2?'' ''numeric'' 2)) \<and>
   (\<exists>cand. fst (solve_one (scripted [report_fail]) ''What is 2+2?'' ''numeric'' 2)
              = Inr \<lparr>ok = False, final_answer = cand, iters = 2\<rparr> \<and>
      length (filter (\<lambda>x. stage_of (fst x) = Some Solver)
                (snd (solve_one (scripted [report_fail]) ''What is 2+2?'' ''numeric'' 2))) = 1 \<and>
      length (filter (\<lambda>x. stage_of (fst x) = Some Fixer)
                (snd (solve_one (scripted [report_fail]) ''What is 2+2?'' ''numeric'' 2))) = 1 \<and>
      length (filter (\<lambda>x. stage_of (fst x) = Some Verifier)
                (snd (solve_one (scripted [report_fail]) ''What is 2+2?'' ''numeric'' 2))) = 2)"
proof -
  have h1: "''numeric'' \<in> TASK_TYPES" by (simp add: TASK_TYPES_def)
  have h2: "(0::int) < 2" by simp
  have h3: "list_all returned (snd (solve_one (scripted [report_fail]) ''What is 2+2?'' ''numeric'' 2))"
    by code_simp
  have h4: "\<not> list_ex (\<lambda>x. is_verifier x \<and> passed x)
       (snd (solve_one (scripted [report_fail]) ''What is 2+2?'' ''numeric'' 2))"
    by code_simp
  from solve_one_never_pass[OF h1 h2 prod.collapse[symmetric] h3 h4] h1 h3 h4
  show ?thesis by auto
qed

end
